theory Spec2Isabelle
  imports Main "HOL-Library.AList"
begin

unbundle bit_operations_syntax

section \<open>Python values that reach the ledger\<close>

text \<open>
  A Python float is carried as its \<^verbatim>\<open>repr\<close> text, which is exactly what
  \<^verbatim>\<open>json.dumps\<close> writes for it; no arithmetic on floats occurs in the code modelled
  here. Strings are lists of 8-bit characters, read as code points below 256.
\<close>

datatype pyfloat = PyFloat (float_repr: string)

datatype json =
    JNull
  | JBool bool
  | JInt int
  | JFloat pyfloat
  | JStr string
  | JList "json list"
  | JDict "(string \<times> json) list"

type_synonym dict = "(string \<times> json) list"

text \<open>\<^verbatim>\<open>d.get(k)\<close>: the value stored under \<open>k\<close>, or \<^verbatim>\<open>None\<close>.\<close>

definition dict_get :: "dict \<Rightarrow> string \<Rightarrow> json" where
  "dict_get d k = (case map_of d k of None \<Rightarrow> JNull | Some v \<Rightarrow> v)"

section \<open>\<^verbatim>\<open>json.dumps(..., sort_keys=True)\<close>\<close>

definition digit_char :: "int \<Rightarrow> char" where
  "digit_char n = ''0123456789abcdef'' ! nat n"

function dec_digits :: "int \<Rightarrow> string" where
  "dec_digits n = (if n < 10 then [digit_char n] else dec_digits (n div 10) @ [digit_char (n mod 10)])"
  by pat_completeness auto
termination
  by (relation "measure nat") auto

definition str_int :: "int \<Rightarrow> string" where
  "str_int n = (if n < 0 then CHR ''-'' # dec_digits (- n) else dec_digits n)"

definition escape_char :: "char \<Rightarrow> string" where
  "escape_char c =
     (if c = CHR 0x22 then [CHR 0x5C, CHR 0x22]
      else if c = CHR 0x5C then [CHR 0x5C, CHR 0x5C]
      else if c = CHR 0x0A then [CHR 0x5C, CHR ''n'']
      else if c = CHR 0x0D then [CHR 0x5C, CHR ''r'']
      else if c = CHR 0x09 then [CHR 0x5C, CHR ''t'']
      else if c = CHR 0x08 then [CHR 0x5C, CHR ''b'']
      else if c = CHR 0x0C then [CHR 0x5C, CHR ''f'']
      else if 32 \<le> (of_char c :: int) \<and> (of_char c :: int) \<le> 126 then [c]
      else [CHR 0x5C, CHR ''u'', CHR ''0'', CHR ''0'',
            digit_char (of_char c div 16), digit_char (of_char c mod 16)])"

definition quote :: "string \<Rightarrow> string" where
  "quote s = CHR 0x22 # concat (map escape_char s) @ [CHR 0x22]"

definition float_text :: "pyfloat \<Rightarrow> string" where
  "float_text f =
     (if float_repr f = ''nan'' then ''NaN''
      else if float_repr f = ''inf'' then ''Infinity''
      else if float_repr f = ''-inf'' then ''-Infinity''
      else float_repr f)"

fun join_comma :: "string list \<Rightarrow> string" where
  "join_comma [] = []"
| "join_comma [x] = x"
| "join_comma (x # y # ys) = x @ '', '' @ join_comma (y # ys)"

text \<open>Python compares strings by code point, position by position.\<close>

fun str_less :: "string \<Rightarrow> string \<Rightarrow> bool" where
  "str_less [] [] = False"
| "str_less [] (y # ys) = True"
| "str_less (x # xs) [] = False"
| "str_less (x # xs) (y # ys) =
     (if (of_char x :: int) < of_char y then True
      else if (of_char x :: int) = of_char y then str_less xs ys
      else False)"

fun insert_item :: "string \<times> 'a \<Rightarrow> (string \<times> 'a) list \<Rightarrow> (string \<times> 'a) list" where
  "insert_item p [] = [p]"
| "insert_item p (q # qs) = (if str_less (fst p) (fst q) then p # q # qs else q # insert_item p qs)"

definition sort_items :: "(string \<times> 'a) list \<Rightarrow> (string \<times> 'a) list" where
  "sort_items ps = foldr insert_item ps []"

fun dumps :: "json \<Rightarrow> string" where
  "dumps JNull = ''null''"
| "dumps (JBool b) = (if b then ''true'' else ''false'')"
| "dumps (JInt n) = str_int n"
| "dumps (JFloat f) = float_text f"
| "dumps (JStr s) = quote s"
| "dumps (JList xs) = ''['' @ join_comma (map dumps xs) @ '']''"
| "dumps (JDict kvs) =
     ''{'' @ join_comma (map (\<lambda>p. quote (fst p) @ '': '' @ snd p)
                          (sort_items (map (\<lambda>kv. (fst kv, dumps (snd kv))) kvs))) @ ''}''"

section \<open>SHA-256 (\<^verbatim>\<open>hashlib.sha256(...).hexdigest()\<close>)\<close>

text \<open>
  FIPS 180-4. A 32-bit word is an \<open>int\<close> below \<open>2 ^ 32\<close>. Sums are taken in the
  integers and reduced modulo \<open>2 ^ 32\<close> by masking.
\<close>

text \<open>The sixty-four round constants, eight to a row as the standard prints them.\<close>

definition K256 :: "int list" where
  "K256 = concat
    [[0x428a2f98, 0x71374491, 0xb5c0fbcf, 0xe9b5dba5, 0x3956c25b, 0x59f111f1, 0x923f82a4, 0xab1c5ed5],
     [0xd807aa98, 0x12835b01, 0x243185be, 0x550c7dc3, 0x72be5d74, 0x80deb1fe, 0x9bdc06a7, 0xc19bf174],
     [0xe49b69c1, 0xefbe4786, 0x0fc19dc6, 0x240ca1cc, 0x2de92c6f, 0x4a7484aa, 0x5cb0a9dc, 0x76f988da],
     [0x983e5152, 0xa831c66d, 0xb00327c8, 0xbf597fc7, 0xc6e00bf3, 0xd5a79147, 0x06ca6351, 0x14292967],
     [0x27b70a85, 0x2e1b2138, 0x4d2c6dfc, 0x53380d13, 0x650a7354, 0x766a0abb, 0x81c2c92e, 0x92722c85],
     [0xa2bfe8a1, 0xa81a664b, 0xc24b8b70, 0xc76c51a3, 0xd192e819, 0xd6990624, 0xf40e3585, 0x106aa070],
     [0x19a4c116, 0x1e376c08, 0x2748774c, 0x34b0bcb5, 0x391c0cb3, 0x4ed8aa4a, 0x5b9cca4f, 0x682e6ff3],
     [0x748f82ee, 0x78a5636f, 0x84c87814, 0x8cc70208, 0x90befffa, 0xa4506ceb, 0xbef9a3f7, 0xc67178f2]]"

datatype hstate = HState int int int int int int int int

definition H256 :: hstate where
  "H256 = HState 0x6a09e667 0xbb67ae85 0x3c6ef372 0xa54ff53a
                 0x510e527f 0x9b05688c 0x1f83d9ab 0x5be0cd19"

definition mask32 :: "int \<Rightarrow> int" where
  "mask32 x = x AND 4294967295"

definition rotr :: "nat \<Rightarrow> int \<Rightarrow> int" where
  "rotr n x = drop_bit n x OR push_bit (32 - n) (take_bit n x)"

definition ssig0 :: "int \<Rightarrow> int" where
  "ssig0 x = rotr 7 x XOR rotr 18 x XOR drop_bit 3 x"

definition ssig1 :: "int \<Rightarrow> int" where
  "ssig1 x = rotr 17 x XOR rotr 19 x XOR drop_bit 10 x"

definition bsig0 :: "int \<Rightarrow> int" where
  "bsig0 x = rotr 2 x XOR rotr 13 x XOR rotr 22 x"

definition bsig1 :: "int \<Rightarrow> int" where
  "bsig1 x = rotr 6 x XOR rotr 11 x XOR rotr 25 x"

definition ch :: "int \<Rightarrow> int \<Rightarrow> int \<Rightarrow> int" where
  "ch x y z = (x AND y) XOR ((4294967295 - x) AND z)"

definition maj :: "int \<Rightarrow> int \<Rightarrow> int \<Rightarrow> int" where
  "maj x y z = (x AND y) XOR (x AND z) XOR (y AND z)"

definition shift_state ::
  "int \<Rightarrow> int \<Rightarrow> int \<Rightarrow> int \<Rightarrow> int \<Rightarrow> int \<Rightarrow> int \<Rightarrow> int \<Rightarrow> int \<Rightarrow> hstate" where
  "shift_state t1 t2 a b c d e f g = HState (mask32 (t1 + t2)) a b c (mask32 (d + t1)) e f g"

fun round_step :: "int \<Rightarrow> int \<Rightarrow> hstate \<Rightarrow> hstate" where
  "round_step k w0 (HState a b c d e f g h) =
     shift_state (mask32 (h + bsig1 e + ch e f g + k + w0)) (mask32 (bsig0 a + maj a b c))
       a b c d e f g"

text \<open>The message schedule is a sliding window of the last sixteen words.\<close>

datatype window = Window int int int int int int int int int int int int int int int int

fun first_w :: "window \<Rightarrow> int" where
  "first_w (Window w0 w1 w2 w3 w4 w5 w6 w7 w8 w9 w10 w11 w12 w13 w14 w15) = w0"

fun next_window :: "window \<Rightarrow> window" where
  "next_window (Window w0 w1 w2 w3 w4 w5 w6 w7 w8 w9 w10 w11 w12 w13 w14 w15) =
     Window w1 w2 w3 w4 w5 w6 w7 w8 w9 w10 w11 w12 w13 w14 w15
       (mask32 (ssig1 w14 + w9 + ssig0 w1 + w0))"

primrec rounds :: "int list \<Rightarrow> window \<Rightarrow> hstate \<Rightarrow> hstate" where
  "rounds [] w s = s"
| "rounds (k # ks) w s = rounds ks (next_window w) (round_step k (first_w w) s)"

fun add_state :: "hstate \<Rightarrow> hstate \<Rightarrow> hstate" where
  "add_state (HState a b c d e f g h) (HState a' b' c' d' e' f' g' h') =
     HState (mask32 (a + a')) (mask32 (b + b')) (mask32 (c + c')) (mask32 (d + d'))
            (mask32 (e + e')) (mask32 (f + f')) (mask32 (g + g')) (mask32 (h + h'))"

definition compress :: "hstate \<Rightarrow> window \<Rightarrow> hstate" where
  "compress s w = add_state s (rounds K256 w s)"

text \<open>Four bytes make a big-endian word; sixteen words make a block.\<close>

fun be_words :: "int list \<Rightarrow> int list" where
  "be_words (a # b # c # d # r) = (((a * 256 + b) * 256 + c) * 256 + d) # be_words r"
| "be_words _ = []"

definition window_of :: "int list \<Rightarrow> window" where
  "window_of ws =
     Window (ws ! 0) (ws ! 1) (ws ! 2) (ws ! 3) (ws ! 4) (ws ! 5) (ws ! 6) (ws ! 7)
            (ws ! 8) (ws ! 9) (ws ! 10) (ws ! 11) (ws ! 12) (ws ! 13) (ws ! 14) (ws ! 15)"

function blocks :: "int list \<Rightarrow> hstate \<Rightarrow> hstate" where
  "blocks [] s = s"
| "blocks (w # ws) s = blocks (drop 16 (w # ws)) (compress s (window_of (take 16 (w # ws))))"
  by pat_completeness auto
termination
  by (relation "measure (\<lambda>(ws, s). length ws)") auto

fun ilen :: "'a list \<Rightarrow> int" where
  "ilen [] = 0"
| "ilen (x # xs) = ilen xs + 1"

text \<open>Padding: the byte \<open>0x80\<close>, zeros up to 56 modulo 64, the bit length in eight bytes.\<close>

definition pad :: "int list \<Rightarrow> int list" where
  "pad m = m @ [128] @ replicate (nat (take_bit 6 (119 - take_bit 6 (ilen m)))) 0 @
             map (\<lambda>i. take_bit 8 (drop_bit i (ilen m * 8))) [56, 48, 40, 32, 24, 16, 8, 0]"

definition hex32 :: "int \<Rightarrow> string" where
  "hex32 w = map (\<lambda>i. digit_char (take_bit 4 (drop_bit i w))) [28, 24, 20, 16, 12, 8, 4, 0]"

fun hexdigest :: "hstate \<Rightarrow> string" where
  "hexdigest (HState a b c d e f g h) = concat (map hex32 [a, b, c, d, e, f, g, h])"

definition sha256 :: "string \<Rightarrow> string" where
  "sha256 m = hexdigest (blocks (be_words (pad (map of_char m))) H256)"

section \<open>Block\<close>

record Block =
  index :: int
  timestamp :: pyfloat
  data :: dict
  previous_hash :: string
  nonce :: int
  hash :: string

text \<open>
  The text that \<^verbatim>\<open>calculate_hash\<close> digests is built from five of the six fields;
  the stored \<open>hash\<close> field is not part of it.
\<close>

definition block_digest :: "int \<Rightarrow> pyfloat \<Rightarrow> dict \<Rightarrow> string \<Rightarrow> int \<Rightarrow> string" where
  "block_digest i t d p n =
     sha256 (dumps (JDict [
       (''index'', JInt i),
       (''timestamp'', JFloat t),
       (''data'', JDict d),
       (''previous_hash'', JStr p),
       (''nonce'', JInt n)]))"

definition calculate_hash :: "Block \<Rightarrow> string" where
  "calculate_hash b =
     block_digest (index b) (timestamp b) (data b) (previous_hash b) (nonce b)"

text \<open>\<^verbatim>\<open>Block(index, timestamp, data, previous_hash, nonce)\<close>: the constructor hashes
  the five fields it was given.\<close>

definition Block_init :: "int \<Rightarrow> pyfloat \<Rightarrow> dict \<Rightarrow> string \<Rightarrow> int \<Rightarrow> Block" where
  "Block_init i t d p n =
     \<lparr>index = i, timestamp = t, data = d, previous_hash = p, nonce = n,
      hash = block_digest i t d p n\<rparr>"

record block_dict =
  bd_index :: int
  bd_timestamp :: pyfloat
  bd_data :: dict
  bd_previous_hash :: string
  bd_nonce :: int
  bd_hash :: string

definition to_dict :: "Block \<Rightarrow> block_dict" where
  "to_dict b =
     \<lparr>bd_index = index b, bd_timestamp = timestamp b, bd_data = data b,
      bd_previous_hash = previous_hash b, bd_nonce = nonce b, bd_hash = hash b\<rparr>"

text \<open>How \<^verbatim>\<open>load_blockchain\<close> and \<^verbatim>\<open>import_chain\<close> rebuild a block: construct it,
  then overwrite the computed hash with the stored one.\<close>

definition block_of_dict :: "block_dict \<Rightarrow> Block" where
  "block_of_dict bd =
     (Block_init (bd_index bd) (bd_timestamp bd) (bd_data bd) (bd_previous_hash bd) (bd_nonce bd))
       \<lparr>hash := bd_hash bd\<rparr>"

section \<open>GreenChain\<close>

datatype error = IndexError | KeyError | Exception string

record cert_info =
  ci_hash :: string
  ci_block_index :: int
  ci_data :: dict
  ci_status :: string

text \<open>
  The persisted document. Of what \<^verbatim>\<open>save_blockchain\<close> writes, only the three entries
  that \<^verbatim>\<open>load_blockchain\<close> reads back are kept. The retired identifiers are written as
  \<^verbatim>\<open>list(set)\<close>, whose order is unspecified, and read back through \<^verbatim>\<open>set(...)\<close>:
  the document keeps them as a set.
\<close>

record document =
  doc_chain :: "block_dict list"
  doc_certificates :: "(string \<times> cert_info) list"
  doc_retired_certificates :: "string set"

text \<open>
  The ledger object together with the content of its storage file (\<open>None\<close>: the file
  does not exist). Certificate identifiers are strings, as the annotation
  \<^verbatim>\<open>Dict[str, Dict]\<close> says.
\<close>

record GreenChain =
  chain :: "Block list"
  difficulty :: int
  certificates :: "(string \<times> cert_info) list"
  retired_certificates :: "string set"
  storage :: "document option"

text \<open>What the system clock returns to one operation: \<^verbatim>\<open>datetime.now(timezone.utc).isoformat()\<close>
  and \<^verbatim>\<open>time.time()\<close>.\<close>

record clock =
  now_iso :: string
  now_time :: pyfloat

text \<open>Python list indexing: a negative index counts from the end.\<close>

definition py_index :: "'a list \<Rightarrow> int \<Rightarrow> 'a option" where
  "py_index xs i =
     (if 0 \<le> i \<and> i < int (length xs) then Some (xs ! nat i)
      else if i < 0 \<and> - int (length xs) \<le> i then Some (xs ! nat (int (length xs) + i))
      else None)"

definition startswith :: "string \<Rightarrow> string \<Rightarrow> bool" where
  "startswith s p = (take (length p) s = p)"

text \<open>\<^verbatim>\<open>'0' * difficulty\<close>; empty for a difficulty that is not positive.\<close>

definition pow_prefix :: "int \<Rightarrow> string" where
  "pow_prefix d = replicate (nat d) CHR ''0''"

definition pow_ok :: "int \<Rightarrow> string \<Rightarrow> bool" where
  "pow_ok d h = startswith h (pow_prefix d)"

text \<open>Writing the file is taken to succeed; the code swallows a failure and goes on.\<close>

definition save_blockchain :: "GreenChain \<Rightarrow> GreenChain" where
  "save_blockchain s =
     s\<lparr>storage := Some \<lparr>doc_chain = map to_dict (chain s),
                          doc_certificates = certificates s,
                          doc_retired_certificates = retired_certificates s\<rparr>\<rparr>"

definition load_blockchain :: "GreenChain \<Rightarrow> GreenChain" where
  "load_blockchain s =
     (case storage s of
        None \<Rightarrow> s
      | Some doc \<Rightarrow>
          s\<lparr>chain := map block_of_dict (doc_chain doc),
            certificates := doc_certificates doc,
            retired_certificates := doc_retired_certificates doc\<rparr>)"

definition genesis_data :: "clock \<Rightarrow> dict" where
  "genesis_data clk =
     [(''type'', JStr ''genesis''),
      (''message'', JStr ''Green Hydrogen Credit Blockchain Simulator - Genesis Block''),
      (''timestamp'', JStr (now_iso clk)),
      (''version'', JStr ''1.0''),
      (''description'', JStr ''This is a simple blockchain simulation for demonstration purposes'')]"

definition create_genesis_block :: "clock \<Rightarrow> GreenChain \<Rightarrow> GreenChain" where
  "create_genesis_block clk s =
     (let genesis_block = Block_init 0 (now_time clk) (genesis_data clk) ''0'' 0
      in save_blockchain (s\<lparr>chain := chain s @ [genesis_block]\<rparr>))"

text \<open>\<^verbatim>\<open>GreenChain(difficulty, storage_file)\<close>, the file's content given as \<open>file\<close>.\<close>

definition GreenChain_init :: "int \<Rightarrow> document option \<Rightarrow> clock \<Rightarrow> GreenChain" where
  "GreenChain_init d file clk =
     (let s = load_blockchain
                \<lparr>chain = [], difficulty = d, certificates = [], retired_certificates = {},
                 storage = file\<rparr>
      in if chain s = [] then create_genesis_block clk s else s)"

definition get_latest_block :: "GreenChain \<Rightarrow> Block option" where
  "get_latest_block s = (if chain s = [] then None else Some (last (chain s)))"

text \<open>The nonce search. It has no bound in the code, so it is a partial function:
  \<open>None\<close> is the search that never ends.\<close>

partial_function (option) mine_loop :: "int \<Rightarrow> Block \<Rightarrow> Block option" where
  "mine_loop d b =
     (if pow_ok d (hash b) then Some b
      else mine_loop d (let b' = b\<lparr>nonce := nonce b + 1\<rparr> in b'\<lparr>hash := calculate_hash b'\<rparr>))"

definition mine_block :: "pyfloat \<Rightarrow> dict \<Rightarrow> GreenChain \<Rightarrow> Block option" where
  "mine_block t payload s =
     (let previous_block = get_latest_block s;
          new_index = (case previous_block of Some p \<Rightarrow> index p + 1 | None \<Rightarrow> 0);
          new_block = Block_init new_index t payload
                        (case previous_block of Some p \<Rightarrow> hash p | None \<Rightarrow> ''0'') 0
      in mine_loop (difficulty s) new_block)"

definition is_valid_block :: "GreenChain \<Rightarrow> Block \<Rightarrow> error + bool" where
  "is_valid_block s b =
     (if index b = 0 then Inr True
      else if index b - 1 \<ge> int (length (chain s)) then Inr False
      else case py_index (chain s) (index b - 1) of
             None \<Rightarrow> Inl IndexError
           | Some previous_block \<Rightarrow>
               if previous_hash b \<noteq> hash previous_block then Inr False
               else if hash b \<noteq> calculate_hash b then Inr False
               else if \<not> pow_ok (difficulty s) (hash b) then Inr False
               else Inr True)"

definition add_block :: "GreenChain \<Rightarrow> Block \<Rightarrow> (error + bool) \<times> GreenChain" where
  "add_block s b =
     (case is_valid_block s b of
        Inl e \<Rightarrow> (Inl e, s)
      | Inr ok \<Rightarrow>
          if ok then (Inr True, save_blockchain (s\<lparr>chain := chain s @ [b]\<rparr>))
          else (Inr False, s))"

fun all_valid :: "GreenChain \<Rightarrow> Block list \<Rightarrow> error + bool" where
  "all_valid s [] = Inr True"
| "all_valid s (b # bs) =
     (case is_valid_block s b of
        Inl e \<Rightarrow> Inl e
      | Inr ok \<Rightarrow> if ok then all_valid s bs else Inr False)"

text \<open>\<^verbatim>\<open>for i in range(1, len(self.chain))\<close>: every block but the first, in order.\<close>

definition is_chain_valid :: "GreenChain \<Rightarrow> error + bool" where
  "is_chain_valid s = all_valid s (drop 1 (chain s))"

definition certificate_data :: "string \<Rightarrow> clock \<Rightarrow> dict \<Rightarrow> dict" where
  "certificate_data certificate_id clk d =
     [(''type'', JStr ''hydrogen_credit_certificate''),
      (''certificate_id'', JStr certificate_id),
      (''seller_id'', dict_get d ''seller_id''),
      (''facility_name'', dict_get d ''facility_name''),
      (''hydrogen_weight_kg'', dict_get d ''hydrogen_weight_kg''),
      (''tokens_generated'', dict_get d ''tokens_generated''),
      (''renewable_source'', dict_get d ''renewable_source''),
      (''production_date'', dict_get d ''production_date''),
      (''location'', dict_get d ''location''),
      (''certification_type'', dict_get d ''certification_type''),
      (''price_per_token'', dict_get d ''price_per_token''),
      (''status'', JStr ''issued''),
      (''issued_at'', JStr (now_iso clk)),
      (''blockchain_version'', JStr ''1.0'')]"

text \<open>
  \<^verbatim>\<open>issue_certificate\<close>. \<open>certificate_id\<close> is what \<^verbatim>\<open>str(uuid.uuid4())\<close> returned.
  The result is \<open>None\<close> when the nonce search does not end; otherwise the returned
  hash or the exception raised, with the ledger as the call left it.
\<close>

definition issue_certificate ::
  "string \<Rightarrow> clock \<Rightarrow> dict \<Rightarrow> GreenChain \<Rightarrow> ((error + string) \<times> GreenChain) option" where
  "issue_certificate certificate_id clk d s =
     (if map_of (certificates s) certificate_id \<noteq> None
      then Some (Inl (Exception ''Certificate ID already exists - duplicate detected''), s)
      else
        case mine_block (now_time clk) (certificate_data certificate_id clk d) s of
          None \<Rightarrow> None
        | Some new_block \<Rightarrow>
            (case add_block s new_block of
               (Inl e, s') \<Rightarrow> Some (Inl e, s')
             | (Inr ok, s') \<Rightarrow>
                 if ok then
                   Some (Inr (hash new_block),
                         s'\<lparr>certificates :=
                              AList.update certificate_id
                                \<lparr>ci_hash = hash new_block, ci_block_index = index new_block,
                                 ci_data = certificate_data certificate_id clk d,
                                 ci_status = ''active''\<rparr>
                                (certificates s')\<rparr>)
                 else Some (Inl (Exception ''Failed to add certificate block to blockchain''), s')))"

text \<open>The first entry of the index, in insertion order, whose hash is the one asked for.\<close>

definition find_by_hash :: "string \<Rightarrow> (string \<times> cert_info) list \<Rightarrow> (string \<times> cert_info) option" where
  "find_by_hash h cs = find (\<lambda>p. ci_hash (snd p) = h) cs"

definition verify_certificate :: "string \<Rightarrow> GreenChain \<Rightarrow> error + bool \<times> dict" where
  "verify_certificate certificate_hash s =
     (case find_by_hash certificate_hash (certificates s) of
        None \<Rightarrow> Inr (False, [(''error'', JStr ''Certificate not found'')])
      | Some (cert_id, cert_info) \<Rightarrow>
          if cert_id \<in> retired_certificates s
          then Inr (False, [(''error'', JStr ''Certificate has been retired/used''),
                            (''status'', JStr ''retired'')])
          else if ci_block_index cert_info < int (length (chain s)) then
            (case py_index (chain s) (ci_block_index cert_info) of
               None \<Rightarrow> Inl IndexError
             | Some block \<Rightarrow>
                 if hash block = certificate_hash then Inr (True, ci_data cert_info)
                 else Inr (False, [(''error'', JStr ''Certificate not found in blockchain'')]))
          else Inr (False, [(''error'', JStr ''Certificate not found in blockchain'')]))"

definition verify_certificate_by_id :: "string \<Rightarrow> GreenChain \<Rightarrow> error + bool \<times> dict" where
  "verify_certificate_by_id certificate_id s =
     (case map_of (certificates s) certificate_id of
        None \<Rightarrow> Inr (False, [(''error'', JStr ''Certificate ID not found'')])
      | Some cert_info \<Rightarrow>
          if certificate_id \<in> retired_certificates s
          then Inr (False, [(''error'', JStr ''Certificate has been retired/used''),
                            (''status'', JStr ''retired'')])
          else if ci_block_index cert_info < int (length (chain s)) then
            (case py_index (chain s) (ci_block_index cert_info) of
               None \<Rightarrow> Inl IndexError
             | Some block \<Rightarrow>
                 if hash block = ci_hash cert_info then Inr (True, ci_data cert_info)
                 else Inr (False, [(''error'', JStr ''Certificate not found in blockchain'')]))
          else Inr (False, [(''error'', JStr ''Certificate not found in blockchain'')]))"

definition retirement_data :: "string \<Rightarrow> string \<Rightarrow> clock \<Rightarrow> dict" where
  "retirement_data cert_id certificate_hash clk =
     [(''type'', JStr ''certificate_retirement''),
      (''certificate_id'', JStr cert_id),
      (''original_hash'', JStr certificate_hash),
      (''retired_at'', JStr (now_iso clk)),
      (''status'', JStr ''retired''),
      (''reason'', JStr ''Certificate used for credit purchase'')]"

text \<open>
  \<^verbatim>\<open>retire_certificate\<close>. The retired set and the status are updated before the
  retirement block is mined and added.
\<close>

definition retire_certificate ::
  "string \<Rightarrow> clock \<Rightarrow> GreenChain \<Rightarrow> ((error + bool) \<times> GreenChain) option" where
  "retire_certificate certificate_hash clk s =
     (case find_by_hash certificate_hash (certificates s) of
        None \<Rightarrow> Some (Inr False, s)
      | Some (cert_id, cert_info) \<Rightarrow>
          if cert_id \<in> retired_certificates s then Some (Inr False, s)
          else
            let s1 = s\<lparr>retired_certificates := insert cert_id (retired_certificates s),
                       certificates :=
                         AList.update cert_id (cert_info\<lparr>ci_status := ''retired''\<rparr>)
                           (certificates s)\<rparr>
            in case mine_block (now_time clk)
                      (retirement_data cert_id certificate_hash clk) s1 of
                 None \<Rightarrow> None
               | Some retirement_block \<Rightarrow> Some (add_block s1 retirement_block))"

definition export_chain :: "GreenChain \<Rightarrow> block_dict list" where
  "export_chain s = map to_dict (chain s)"

text \<open>
  One turn of the loop of \<^verbatim>\<open>import_chain\<close> that rebuilds the two indices.
  \<^verbatim>\<open>block.data['certificate_id']\<close> raises when the key is absent; an identifier that is
  not a string is outside the type of the index and is treated alike.
\<close>

definition replay_block ::
  "Block \<Rightarrow> (string \<times> cert_info) list \<times> string set
     \<Rightarrow> error + (string \<times> cert_info) list \<times> string set" where
  "replay_block b st =
     (case st of (cs, rs) \<Rightarrow>
        if dict_get (data b) ''type'' = JStr ''hydrogen_credit_certificate'' then
          (case map_of (data b) ''certificate_id'' of
             Some (JStr cert_id) \<Rightarrow>
               Inr (AList.update cert_id
                      \<lparr>ci_hash = hash b, ci_block_index = index b, ci_data = data b,
                       ci_status = ''active''\<rparr> cs, rs)
           | _ \<Rightarrow> Inl KeyError)
        else if dict_get (data b) ''type'' = JStr ''certificate_retirement'' then
          (case map_of (data b) ''certificate_id'' of
             Some (JStr cert_id) \<Rightarrow>
               Inr (case map_of cs cert_id of
                      None \<Rightarrow> cs
                    | Some ci \<Rightarrow> AList.update cert_id (ci\<lparr>ci_status := ''retired''\<rparr>) cs,
                    insert cert_id rs)
           | _ \<Rightarrow> Inl KeyError)
        else Inr (cs, rs))"

text \<open>The loop: the state reached when it ends, and whether it ended by an exception.\<close>

fun replay ::
  "Block list \<Rightarrow> (string \<times> cert_info) list \<times> string set
     \<Rightarrow> bool \<times> (string \<times> cert_info) list \<times> string set" where
  "replay [] st = (True, st)"
| "replay (b # bs) st =
     (case replay_block b st of
        Inl e \<Rightarrow> (False, st)
      | Inr st' \<Rightarrow> replay bs st')"

definition import_chain :: "block_dict list \<Rightarrow> GreenChain \<Rightarrow> bool \<times> GreenChain" where
  "import_chain chain_data s =
     (let s1 = s\<lparr>chain := map block_of_dict chain_data\<rparr>
      in case replay (chain s1) ([], {}) of
           (ok, cs, rs) \<Rightarrow>
             let s2 = s1\<lparr>certificates := cs, retired_certificates := rs\<rparr>
             in if ok then (True, save_blockchain s2) else (False, s2))"

section \<open>RealTimeBlockchain: the event history\<close>

record event_record =
  er_timestamp :: string
  er_event :: dict

text \<open>
  \<^verbatim>\<open>_broadcast_event\<close>, as far as the history goes. \<open>emitted\<close> tells whether
  \<^verbatim>\<open>socketio.emit\<close> returned; when it raises, the handler logs and the history is
  left as it was.
\<close>

definition broadcast_event :: "string \<Rightarrow> bool \<Rightarrow> dict \<Rightarrow> event_record list \<Rightarrow> event_record list" where
  "broadcast_event now emitted event blockchain_events =
     (if emitted then
        let evs = blockchain_events @ [\<lparr>er_timestamp = now, er_event = event\<rparr>]
        in if length evs > 1000 then drop (length evs - 1000) evs else evs
      else blockchain_events)"

text \<open>The slice \<^verbatim>\<open>xs[start:]\<close>.\<close>

definition py_slice_from :: "int \<Rightarrow> 'a list \<Rightarrow> 'a list" where
  "py_slice_from start xs =
     (if start < 0 then drop (nat (int (length xs) + start)) xs else drop (nat start) xs)"

text \<open>\<^verbatim>\<open>get_event_history(event_type, limit)\<close>; \<open>None\<close> and the empty string are the
  filters that Python takes for false.\<close>

definition get_event_history :: "string option \<Rightarrow> int \<Rightarrow> event_record list \<Rightarrow> event_record list" where
  "get_event_history event_type limit blockchain_events =
     (let events =
        (case event_type of
           None \<Rightarrow> blockchain_events
         | Some t \<Rightarrow>
             if t \<noteq> [] then filter (\<lambda>e. dict_get (er_event e) ''type'' = JStr t) blockchain_events
             else blockchain_events)
      in if events \<noteq> [] then py_slice_from (- limit) events else [])"

definition same_content :: "Block \<Rightarrow> Block \<Rightarrow> bool" where
  "same_content b b' \<longleftrightarrow>
     index b' = index b \<and> timestamp b' = timestamp b \<and> data b' = data b \<and>
     previous_hash b' = previous_hash b"

definition sealed :: "int \<Rightarrow> Block \<Rightarrow> bool" where
  "sealed d b \<longleftrightarrow> hash b = calculate_hash b \<and> pow_ok d (hash b)"

definition linked :: "int \<Rightarrow> Block list \<Rightarrow> nat \<Rightarrow> bool" where
  "linked d c i \<longleftrightarrow> previous_hash (c ! i) = hash (c ! (i - 1)) \<and> sealed d (c ! i)"

definition wf_chain :: "int \<Rightarrow> Block list \<Rightarrow> bool" where
  "wf_chain d c \<longleftrightarrow>
     c \<noteq> [] \<and> (\<forall>i<length c. index (c ! i) = int i) \<and> (\<forall>i<length c. 0 < i \<longrightarrow> linked d c i)"

definition ledger_inv :: "GreenChain \<Rightarrow> bool" where
  "ledger_inv s \<longleftrightarrow>
     wf_chain (difficulty s) (chain s) \<and>
     replay (chain s) ([], {}) = (True, certificates s, retired_certificates s) \<and>
     (\<exists>doc. storage s = Some doc \<and> doc_chain doc = map to_dict (chain s)) \<and>
     retired_certificates s \<subseteq> fst ` set (certificates s) \<and>
     hash (hd (chain s)) = calculate_hash (hd (chain s))"

inductive evolves :: "GreenChain \<Rightarrow> GreenChain \<Rightarrow> bool" where
  same: "evolves s s"
| issue: "evolves s s1 \<Longrightarrow> issue_certificate u clk d s1 = Some (r, s2) \<Longrightarrow> evolves s s2"
| retire: "evolves s s1 \<Longrightarrow> retire_certificate h clk s1 = Some (r', s2) \<Longrightarrow> evolves s s2"

definition reachable :: "GreenChain \<Rightarrow> bool" where
  "reachable s \<longleftrightarrow> (\<exists>d clk. evolves (GreenChain_init d None clk) s)"

definition clock0 :: clock where
  "clock0 = \<lparr>now_iso = ''2025-08-30T08:00:00.500000+00:00'', now_time = PyFloat ''1756540800.5''\<rparr>"

definition clock1 :: clock where
  "clock1 = \<lparr>now_iso = ''2025-08-30T08:05:00.250000+00:00'', now_time = PyFloat ''1756541101.238707''\<rparr>"

definition clock2 :: clock where
  "clock2 = \<lparr>now_iso = ''2025-08-30T08:06:00.750000+00:00'', now_time = PyFloat ''1756541160.065879''\<rparr>"

definition clock3 :: clock where
  "clock3 = \<lparr>now_iso = ''2025-08-30T09:00:00.125000+00:00'', now_time = PyFloat ''1756544400.007627''\<rparr>"

definition uuid1 :: string where "uuid1 = ''3f2b8c1e-9a4d-4e6f-8b7a-1c2d3e4f5a6b''"

definition uuid2 :: string where "uuid2 = ''7c9e6679-7425-40de-944b-e07fc1f90ae7''"

definition solar_data :: dict where
  "solar_data =
     [(''seller_id'', JInt 1),
      (''facility_name'', JStr ''Test Solar Farm''),
      (''hydrogen_weight_kg'', JFloat (PyFloat ''100.0'')),
      (''tokens_generated'', JInt 100),
      (''renewable_source'', JStr ''solar''),
      (''production_date'', JStr ''2025-08-30''),
      (''location'', JStr ''California''),
      (''certification_type'', JStr ''standard''),
      (''price_per_token'', JFloat (PyFloat ''2.5''))]"

definition hash0 :: string where
  "hash0 = ''c62d0727e1e23ec9204298fbe3b178b7d31241ce9e4b6e955b3b66e5ecdb6ef1''"

definition hash1 :: string where
  "hash1 = ''00000e710d107b671676de2b3556be7350c998670614ffe6abaaf41d6116b9f4''"

definition hash2 :: string where
  "hash2 = ''000071e7a032c7f981b6808d860c4bf4ba44557bd63055c5dbc5658ad77608b9''"

definition hash3 :: string where
  "hash3 = ''00003d3006e80a9536f8882c59ac3d994f2c8f6af779713b0dd1a6eb1dbd465e''"

definition hash_tampered :: string where
  "hash_tampered = ''c91be763ce5718fd3a4d83c84c5cd3e27edddf8cefe88165b209455c10900ea4''"

definition block0 :: Block where
  "block0 = \<lparr>index = 0, timestamp = now_time clock0, data = genesis_data clock0,
              previous_hash = ''0'', nonce = 0, hash = hash0\<rparr>"

definition block1 :: Block where
  "block1 = \<lparr>index = 1, timestamp = now_time clock1,
              data = certificate_data uuid1 clock1 solar_data,
              previous_hash = hash0, nonce = 0, hash = hash1\<rparr>"

definition block2 :: Block where
  "block2 = \<lparr>index = 1, timestamp = now_time clock2,
              data = certificate_data uuid2 clock2 [],
              previous_hash = hash0, nonce = 0, hash = hash2\<rparr>"

definition block3 :: Block where
  "block3 = \<lparr>index = 2, timestamp = now_time clock3,
              data = retirement_data uuid1 hash1 clock3,
              previous_hash = hash1, nonce = 0, hash = hash3\<rparr>"

definition cert1 :: cert_info where
  "cert1 = \<lparr>ci_hash = hash1, ci_block_index = 1,
             ci_data = certificate_data uuid1 clock1 solar_data, ci_status = ''active''\<rparr>"

definition cert2 :: cert_info where
  "cert2 = \<lparr>ci_hash = hash2, ci_block_index = 1,
             ci_data = certificate_data uuid2 clock2 [], ci_status = ''active''\<rparr>"

definition ledger0 :: GreenChain where
  "ledger0 = GreenChain_init 4 None clock0"

definition ledger1 :: GreenChain where
  "ledger1 =
     \<lparr>chain = [block0, block1], difficulty = 4, certificates = [(uuid1, cert1)],
      retired_certificates = {},
      storage = Some \<lparr>doc_chain = [to_dict block0, to_dict block1], doc_certificates = [],
                       doc_retired_certificates = {}\<rparr>\<rparr>"

definition ledger2 :: GreenChain where
  "ledger2 =
     \<lparr>chain = [block0, block2], difficulty = 4, certificates = [(uuid2, cert2)],
      retired_certificates = {},
      storage = Some \<lparr>doc_chain = [to_dict block0, to_dict block2], doc_certificates = [],
                       doc_retired_certificates = {}\<rparr>\<rparr>"

definition ledger3 :: GreenChain where
  "ledger3 =
     \<lparr>chain = [block0, block1, block3], difficulty = 4,
      certificates = [(uuid1, cert1\<lparr>ci_status := ''retired''\<rparr>)],
      retired_certificates = {uuid1},
      storage = Some \<lparr>doc_chain = [to_dict block0, to_dict block1, to_dict block3],
                       doc_certificates = [(uuid1, cert1\<lparr>ci_status := ''retired''\<rparr>)],
                       doc_retired_certificates = {uuid1}\<rparr>\<rparr>"

definition ledger1_marked :: GreenChain where
  "ledger1_marked =
     ledger1\<lparr>retired_certificates := insert uuid1 (retired_certificates ledger1),
              certificates := AList.update uuid1 (cert1\<lparr>ci_status := ''retired''\<rparr>)
                                (certificates ledger1)\<rparr>"

lemma calculate_hash_update [simp]:
  "calculate_hash (b\<lparr>hash := h\<rparr>) = calculate_hash b"
  by (simp add: calculate_hash_def)

lemma calculate_hash_Block_init [simp]:
  "calculate_hash (Block_init i t d p n) = block_digest i t d p n"
  by (simp add: calculate_hash_def Block_init_def)

lemma mine_loop_sound_aux:
  "mine_loop d b = Some b' \<Longrightarrow> hash b = calculate_hash b \<longrightarrow> same_content b b' \<and> sealed d b'"
proof (induct rule: mine_loop.raw_induct [rotated, consumes 1])
  case (1 loop d b b')
  show ?case
  proof (cases "pow_ok d (hash b)")
    case True
    with 1(2) show ?thesis by (auto simp: same_content_def sealed_def)
  next
    case False
    define b1 where "b1 = b\<lparr>nonce := nonce b + 1, hash := calculate_hash (b\<lparr>nonce := nonce b + 1\<rparr>)\<rparr>"
    from 1(2) False have "loop d b1 = Some b'" by (simp add: Let_def b1_def)
    with 1(1) have "hash b1 = calculate_hash b1 \<longrightarrow> same_content b1 b' \<and> sealed d b'" by blast
    then show ?thesis by (simp add: same_content_def b1_def)
  qed
qed

lemma mine_loop_sound:
  "mine_loop d b = Some b' \<Longrightarrow> hash b = calculate_hash b \<Longrightarrow> same_content b b' \<and> sealed d b'"
  using mine_loop_sound_aux by blast

lemma mine_loop_total:
  assumes "hash b = calculate_hash b"
    and "pow_ok d (block_digest (index b) (timestamp b) (data b) (previous_hash b) (nonce b + int k))"
  shows "\<exists>b'. mine_loop d b = Some b'"
  using assms
proof (induction k arbitrary: b)
  case 0
  then have "pow_ok d (hash b)" by (simp add: calculate_hash_def)
  then show ?case by (subst mine_loop.simps) simp
next
  case (Suc k)
  show ?case
  proof (cases "pow_ok d (hash b)")
    case True
    then show ?thesis by (subst mine_loop.simps) simp
  next
    case False
    let ?b1 = "b\<lparr>nonce := nonce b + 1, hash := calculate_hash (b\<lparr>nonce := nonce b + 1\<rparr>)\<rparr>"
    have "hash ?b1 = calculate_hash ?b1" by simp
    moreover have "pow_ok d (block_digest (index ?b1) (timestamp ?b1) (data ?b1)
                      (previous_hash ?b1) (nonce ?b1 + int k))"
      using Suc.prems(2) by (simp add: algebra_simps)
    ultimately obtain b' where "mine_loop d ?b1 = Some b'"
      using Suc.IH by blast
    with False show ?thesis by (subst mine_loop.simps) (simp add: Let_def)
  qed
qed

lemma py_index_nat [simp]: "i < length xs \<Longrightarrow> py_index xs (int i) = Some (xs ! i)"
  by (simp add: py_index_def)

lemma py_index_pred: "0 < i \<Longrightarrow> i \<le> length xs \<Longrightarrow> py_index xs (int i - 1) = Some (xs ! (i - 1))"
  using py_index_nat [of "i - 1" xs] by (simp add: of_nat_diff)

lemma wf_chain_append:
  assumes "wf_chain d c" "index b = int (length c)" "previous_hash b = hash (last c)" "sealed d b"
  shows "wf_chain d (c @ [b])"
proof -
  from assms(1) have ne: "c \<noteq> []" by (simp add: wf_chain_def)
  have "index ((c @ [b]) ! i) = int i" if "i < length (c @ [b])" for i
    using that assms(1,2) by (cases "i < length c") (auto simp: wf_chain_def nth_append)
  moreover have "linked d (c @ [b]) i" if "i < length (c @ [b])" "0 < i" for i
  proof (cases "i < length c")
    case True
    with assms(1) that have "linked d c i" by (simp add: wf_chain_def)
    moreover from True have "i - 1 < length c" by simp
    ultimately show ?thesis using True by (simp add: linked_def nth_append)
  next
    case False
    with that have i: "i = length c" by simp
    with ne assms(3,4) show ?thesis
      by (simp add: linked_def nth_append last_conv_nth)
  qed
  ultimately show ?thesis using ne by (simp add: wf_chain_def)
qed

lemma mine_block_props:
  assumes "wf_chain d (chain s)" "mine_block t p s = Some b"
  shows "index b = int (length (chain s))" "previous_hash b = hash (last (chain s))"
    "data b = p" "timestamp b = t" "sealed (difficulty s) b"
proof -
  from assms(1) have ne: "chain s \<noteq> []" by (simp add: wf_chain_def)
  then obtain n where n: "length (chain s) = Suc n" by (cases "chain s") auto
  with assms(1) ne have ix: "index (last (chain s)) + 1 = int (length (chain s))"
    by (simp add: wf_chain_def last_conv_nth)
  let ?nb = "Block_init (index (last (chain s)) + 1) t p (hash (last (chain s))) 0"
  from assms(2) ne have m: "mine_loop (difficulty s) ?nb = Some b"
    by (simp add: mine_block_def get_latest_block_def Let_def)
  have "hash ?nb = calculate_hash ?nb" by (simp add: Block_init_def calculate_hash_def)
  with m have sc: "same_content ?nb b" and se: "sealed (difficulty s) b"
    using mine_loop_sound by blast+
  from sc ix show "index b = int (length (chain s))"
    by (simp add: same_content_def Block_init_def)
  from sc show "previous_hash b = hash (last (chain s))" "data b = p" "timestamp b = t"
    by (simp_all add: same_content_def Block_init_def)
  from se show "sealed (difficulty s) b" .
qed

lemma mine_block_total:
  assumes "chain s \<noteq> []"
    and "pow_ok (difficulty s)
           (block_digest (index (last (chain s)) + 1) t p (hash (last (chain s))) (int k))"
  shows "\<exists>b. mine_block t p s = Some b"
proof -
  let ?nb = "Block_init (index (last (chain s)) + 1) t p (hash (last (chain s))) 0"
  have "hash ?nb = calculate_hash ?nb" by (simp add: Block_init_def calculate_hash_def)
  moreover have "pow_ok (difficulty s)
     (block_digest (index ?nb) (timestamp ?nb) (data ?nb) (previous_hash ?nb) (nonce ?nb + int k))"
    using assms(2) by (simp add: Block_init_def)
  ultimately have "\<exists>b. mine_loop (difficulty s) ?nb = Some b" by (rule mine_loop_total)
  with assms(1) show ?thesis by (simp add: mine_block_def get_latest_block_def Let_def)
qed

lemma is_valid_block_linked:
  assumes "0 < i" "i \<le> length (chain s)" "index b = int i"
    "previous_hash b = hash (chain s ! (i - 1))" "sealed (difficulty s) b"
  shows "is_valid_block s b = Inr True"
  using assms py_index_pred [of i "chain s"]
  by (auto simp: is_valid_block_def sealed_def)

lemma mined_block_valid:
  assumes "wf_chain (difficulty s) (chain s)" "mine_block t p s = Some b"
  shows "is_valid_block s b = Inr True"
proof -
  from assms(1) have ne: "chain s \<noteq> []" by (simp add: wf_chain_def)
  note props = mine_block_props [OF assms]
  show ?thesis
  proof (rule is_valid_block_linked [where i = "length (chain s)"])
    show "0 < length (chain s)" using ne by simp
    show "previous_hash b = hash (chain s ! (length (chain s) - 1))"
      using props(2) ne by (simp add: last_conv_nth)
  qed (use props in simp_all)
qed

lemma add_block_mined:
  assumes "wf_chain (difficulty s) (chain s)" "mine_block t p s = Some b"
  shows "add_block s b = (Inr True, save_blockchain (s\<lparr>chain := chain s @ [b]\<rparr>))"
  using mined_block_valid [OF assms] by (simp add: add_block_def)

lemma all_valid_True: "(\<And>b. b \<in> set bs \<Longrightarrow> is_valid_block s b = Inr True) \<Longrightarrow> all_valid s bs = Inr True"
  by (induction bs) simp_all

lemma wf_chain_valid:
  assumes "wf_chain (difficulty s) (chain s)"
  shows "is_chain_valid s = Inr True"
  unfolding is_chain_valid_def
proof (rule all_valid_True)
  fix b assume "b \<in> set (drop 1 (chain s))"
  then obtain j where j: "j < length (chain s) - 1" "b = chain s ! (Suc j)"
    by (auto simp: in_set_conv_nth)
  then have i: "0 < Suc j" "Suc j < length (chain s)" by auto
  with assms have "index b = int (Suc j)" "linked (difficulty s) (chain s) (Suc j)"
    using j(2) by (auto simp: wf_chain_def)
  then show "is_valid_block s b = Inr True"
    using i j(2) by (intro is_valid_block_linked [where i = "Suc j"]) (auto simp: linked_def)
qed

lemma replay_append:
  "replay (xs @ ys) st =
     (case replay xs st of (ok, st') \<Rightarrow> if ok then replay ys st' else (False, st'))"
  by (induction xs arbitrary: st) (simp_all split: sum.splits)

lemma Block_init_sel [simp]:
  "index (Block_init i t d p n) = i" "timestamp (Block_init i t d p n) = t"
  "data (Block_init i t d p n) = d" "previous_hash (Block_init i t d p n) = p"
  "nonce (Block_init i t d p n) = n" "hash (Block_init i t d p n) = block_digest i t d p n"
  by (simp_all add: Block_init_def)

lemma replay_block_certificate:
  "data b = certificate_data u clk d \<Longrightarrow>
   replay_block b (cs, rs) =
     Inr (AList.update u \<lparr>ci_hash = hash b, ci_block_index = index b,
                           ci_data = certificate_data u clk d, ci_status = ''active''\<rparr> cs, rs)"
  by (simp add: replay_block_def certificate_data_def dict_get_def)

lemma replay_block_retirement:
  "data b = retirement_data u h0 clk \<Longrightarrow>
   replay_block b (cs, rs) =
     Inr (case map_of cs u of None \<Rightarrow> cs
          | Some ci \<Rightarrow> AList.update u (ci\<lparr>ci_status := ''retired''\<rparr>) cs,
          insert u rs)"
  by (simp add: replay_block_def retirement_data_def dict_get_def)

lemma replay_block_genesis:
  "data b = genesis_data clk \<Longrightarrow> replay_block b st = Inr st"
  by (cases st) (simp add: replay_block_def genesis_data_def dict_get_def)

lemma replay_block_distinct:
  "replay_block b (cs, rs) = Inr (cs', rs') \<Longrightarrow> distinct (map fst cs) \<Longrightarrow> distinct (map fst cs')"
  by (auto simp: replay_block_def distinct_update split: if_splits option.splits json.splits)

lemma replay_distinct:
  "replay bs (cs, rs) = (ok, cs', rs') \<Longrightarrow> distinct (map fst cs) \<Longrightarrow> distinct (map fst cs')"
proof (induction bs arbitrary: cs rs)
  case Nil
  then show ?case by simp
next
  case (Cons b bs)
  show ?case
  proof (cases "replay_block b (cs, rs)")
    case (Inl e)
    with Cons.prems show ?thesis by simp
  next
    case (Inr st)
    obtain cs1 rs1 where st: "st = (cs1, rs1)" by (cases st)
    with Inr Cons.prems(2) have "distinct (map fst cs1)" using replay_block_distinct by blast
    moreover from Inr st Cons.prems(1) have "replay bs (cs1, rs1) = (ok, cs', rs')" by simp
    ultimately show ?thesis by (rule Cons.IH [rotated])
  qed
qed

lemma ledger_inv_distinct: "ledger_inv s \<Longrightarrow> distinct (map fst (certificates s))"
  using replay_distinct [of "chain s" "[]" "{}" True "certificates s" "retired_certificates s"]
  by (simp add: ledger_inv_def)

lemma ledger_inv_fresh: "ledger_inv (GreenChain_init d None clk)"
  by (simp add: ledger_inv_def GreenChain_init_def load_blockchain_def create_genesis_block_def
      save_blockchain_def Let_def wf_chain_def replay_block_genesis [where clk = clk])

lemma find_by_hash_Some:
  "find_by_hash h cs = Some (u, ci) \<Longrightarrow> (u, ci) \<in> set cs \<and> ci_hash ci = h"
  unfolding find_by_hash_def by (induction cs) (auto split: if_splits)

lemma issue_certificate_cases:
  assumes "wf_chain (difficulty s) (chain s)" "issue_certificate u clk d s = Some (r, s')"
  shows "(r = Inl (Exception ''Certificate ID already exists - duplicate detected'') \<and> s' = s
            \<and> map_of (certificates s) u \<noteq> None) \<or>
         (\<exists>b. mine_block (now_time clk) (certificate_data u clk d) s = Some b \<and>
              map_of (certificates s) u = None \<and> r = Inr (hash b) \<and>
              s' = (save_blockchain (s\<lparr>chain := chain s @ [b]\<rparr>))
                     \<lparr>certificates := AList.update u
                        \<lparr>ci_hash = hash b, ci_block_index = index b,
                         ci_data = certificate_data u clk d, ci_status = ''active''\<rparr>
                        (certificates s)\<rparr>)"
proof (cases "map_of (certificates s) u = None")
  case False
  with assms(2) show ?thesis by (auto simp: issue_certificate_def)
next
  case True
  with assms(2) obtain b where b: "mine_block (now_time clk) (certificate_data u clk d) s = Some b"
    by (auto simp: issue_certificate_def split: option.splits)
  from add_block_mined [OF assms(1) b] assms(2) True b show ?thesis
    by (simp add: issue_certificate_def save_blockchain_def)
qed

lemma retire_certificate_cases:
  assumes "wf_chain (difficulty s) (chain s)" "retire_certificate h clk s = Some (r, s')"
  shows "(r = Inr False \<and> s' = s \<and>
            (find_by_hash h (certificates s) = None \<or>
             (\<exists>u ci. find_by_hash h (certificates s) = Some (u, ci) \<and> u \<in> retired_certificates s))) \<or>
         (\<exists>u ci b. find_by_hash h (certificates s) = Some (u, ci) \<and> u \<notin> retired_certificates s \<and>
              mine_block (now_time clk) (retirement_data u h clk)
                (s\<lparr>retired_certificates := insert u (retired_certificates s),
                   certificates := AList.update u (ci\<lparr>ci_status := ''retired''\<rparr>) (certificates s)\<rparr>)
                = Some b \<and>
              r = Inr True \<and>
              s' = save_blockchain
                     (s\<lparr>retired_certificates := insert u (retired_certificates s),
                        certificates := AList.update u (ci\<lparr>ci_status := ''retired''\<rparr>) (certificates s),
                        chain := chain s @ [b]\<rparr>))"
proof (cases "find_by_hash h (certificates s)")
  case None
  with assms(2) show ?thesis by (simp add: retire_certificate_def)
next
  case (Some p)
  obtain u ci where p: "p = (u, ci)" by (cases p)
  show ?thesis
  proof (cases "u \<in> retired_certificates s")
    case True
    with Some p assms(2) show ?thesis by (simp add: retire_certificate_def)
  next
    case False
    let ?s1 = "s\<lparr>retired_certificates := insert u (retired_certificates s),
                  certificates := AList.update u (ci\<lparr>ci_status := ''retired''\<rparr>) (certificates s)\<rparr>"
    from Some p False assms(2) obtain b where
      b: "mine_block (now_time clk) (retirement_data u h clk) ?s1 = Some b"
      and r: "(r, s') = add_block ?s1 b"
      by (auto simp: retire_certificate_def Let_def split: option.splits)
    have "wf_chain (difficulty ?s1) (chain ?s1)" using assms(1) by simp
    from add_block_mined [OF this b] r Some p False b show ?thesis
      by (simp add: save_blockchain_def)
  qed
qed

lemma issue_preserves_inv:
  assumes "ledger_inv s" "issue_certificate u clk d s = Some (r, s')"
  shows "ledger_inv s'"
proof -
  from assms(1) have wf: "wf_chain (difficulty s) (chain s)" by (simp add: ledger_inv_def)
  from issue_certificate_cases [OF wf assms(2)] show ?thesis
  proof (elim disjE conjE exE)
    assume "s' = s" with assms(1) show ?thesis by simp
  next
    fix b
    assume b: "mine_block (now_time clk) (certificate_data u clk d) s = Some b"
      and s': "s' = (save_blockchain (s\<lparr>chain := chain s @ [b]\<rparr>))
                     \<lparr>certificates := AList.update u
                        \<lparr>ci_hash = hash b, ci_block_index = index b,
                         ci_data = certificate_data u clk d, ci_status = ''active''\<rparr>
                        (certificates s)\<rparr>"
    note props = mine_block_props [OF wf b]
    have "wf_chain (difficulty s) (chain s @ [b])"
      using wf props by (intro wf_chain_append) simp_all
    moreover have "replay (chain s @ [b]) ([], {}) =
        (True, AList.update u \<lparr>ci_hash = hash b, ci_block_index = index b,
                         ci_data = certificate_data u clk d, ci_status = ''active''\<rparr>
                        (certificates s), retired_certificates s)"
      using assms(1) replay_block_certificate [OF props(3)]
      by (simp add: ledger_inv_def replay_append)
    moreover have "chain s \<noteq> []" using wf by (simp add: wf_chain_def)
    ultimately show ?thesis using s' assms(1)
      by (auto simp: ledger_inv_def save_blockchain_def dom_update)
  qed
qed

lemma retire_preserves_inv:
  assumes "ledger_inv s" "retire_certificate h clk s = Some (r, s')"
  shows "ledger_inv s'"
proof -
  from assms(1) have wf: "wf_chain (difficulty s) (chain s)" by (simp add: ledger_inv_def)
  from retire_certificate_cases [OF wf assms(2)]
  consider (unchanged) "s' = s"
    | (mined) u ci b where "find_by_hash h (certificates s) = Some (u, ci)"
        "mine_block (now_time clk) (retirement_data u h clk)
           (s\<lparr>retired_certificates := insert u (retired_certificates s),
              certificates := AList.update u (ci\<lparr>ci_status := ''retired''\<rparr>) (certificates s)\<rparr>)
         = Some b"
        "s' = save_blockchain
                (s\<lparr>retired_certificates := insert u (retired_certificates s),
                   certificates := AList.update u (ci\<lparr>ci_status := ''retired''\<rparr>) (certificates s),
                   chain := chain s @ [b]\<rparr>)"
    by blast
  then show ?thesis
  proof cases
    case unchanged
    with assms(1) show ?thesis by simp
  next
    case (mined u ci b)
    let ?s1 = "s\<lparr>retired_certificates := insert u (retired_certificates s),
                  certificates := AList.update u (ci\<lparr>ci_status := ''retired''\<rparr>) (certificates s)\<rparr>"
    note f = mined(1) and b = mined(2) and s' = mined(3)
    have wf1: "wf_chain (difficulty ?s1) (chain ?s1)" using wf by simp
    note props = mine_block_props [OF wf1 b]
    have "wf_chain (difficulty s) (chain s @ [b])"
      using wf props by (intro wf_chain_append) simp_all
    moreover have "map_of (certificates s) u = Some ci"
      using find_by_hash_Some [OF f] ledger_inv_distinct [OF assms(1)] by (simp add: map_of_is_SomeI)
    then have "replay (chain s @ [b]) ([], {}) =
        (True, AList.update u (ci\<lparr>ci_status := ''retired''\<rparr>) (certificates s),
         insert u (retired_certificates s))"
      using assms(1) replay_block_retirement [OF props(3)]
      by (simp add: ledger_inv_def replay_append)
    moreover have "chain s \<noteq> []" using wf by (simp add: wf_chain_def)
    moreover have "u \<in> fst ` set (certificates s)"
      using find_by_hash_Some [OF f] by force
    ultimately show ?thesis using s' assms(1)
      by (auto simp: ledger_inv_def save_blockchain_def dom_update)
  qed
qed

lemma evolves_inv: "evolves s s' \<Longrightarrow> ledger_inv s \<Longrightarrow> ledger_inv s'"
  by (induction rule: evolves.induct) (auto intro: issue_preserves_inv retire_preserves_inv)

lemma reachable_inv: "reachable s \<Longrightarrow> ledger_inv s"
  unfolding reachable_def using evolves_inv ledger_inv_fresh by blast

lemma evolves_trans: "evolves s1 s2 \<Longrightarrow> evolves s0 s1 \<Longrightarrow> evolves s0 s2"
  by (induction rule: evolves.induct) (auto intro: evolves.intros)

lemma reachable_evolves: "reachable s \<Longrightarrow> evolves s s' \<Longrightarrow> reachable s'"
  unfolding reachable_def using evolves_trans by blast

lemma evolves_difficulty: "evolves s s' \<Longrightarrow> ledger_inv s \<Longrightarrow> difficulty s' = difficulty s"
proof (induction rule: evolves.induct)
  case (same s)
  then show ?case by simp
next
  case (issue s s1 u clk d r s2)
  from evolves_inv [OF issue(1) issue(4)]
  have "wf_chain (difficulty s1) (chain s1)" by (simp add: ledger_inv_def)
  from issue_certificate_cases [OF this issue(2)] issue show ?case
    by (auto simp: save_blockchain_def)
next
  case (retire s s1 h clk r' s2)
  from evolves_inv [OF retire(1) retire(4)]
  have "wf_chain (difficulty s1) (chain s1)" by (simp add: ledger_inv_def)
  from retire_certificate_cases [OF this retire(2)] retire show ?case
    by (auto simp: save_blockchain_def)
qed

lemma digest0: "block_digest 0 (now_time clock0) (genesis_data clock0) ''0'' 0 = hash0"
  by code_simp

lemma digest1:
  "block_digest 1 (now_time clock1) (certificate_data uuid1 clock1 solar_data) hash0 0 = hash1"
  by code_simp

lemma digest2:
  "block_digest 1 (now_time clock2) (certificate_data uuid2 clock2 []) hash0 0 = hash2"
  by code_simp

lemma digest3:
  "block_digest 2 (now_time clock3) (retirement_data uuid1 hash1 clock3) hash1 0 = hash3"
  by code_simp

lemma digest_tampered:
  "block_digest 1 (now_time clock1) [] hash0 0 = hash_tampered"
  by code_simp

lemma pow_prefix_4: "pow_prefix 4 = ''0000''"
  by (simp add: pow_prefix_def eval_nat_numeral)

lemma pow_hashes:
  "\<not> pow_ok 4 hash0" "pow_ok 4 hash1" "pow_ok 4 hash2" "pow_ok 4 hash3"
  by (simp_all add: pow_ok_def startswith_def pow_prefix_4 hash0_def hash1_def hash2_def hash3_def)

lemma ledger0_eq:
  "ledger0 =
     \<lparr>chain = [block0], difficulty = 4, certificates = [], retired_certificates = {},
      storage = Some \<lparr>doc_chain = [to_dict block0], doc_certificates = [],
                       doc_retired_certificates = {}\<rparr>\<rparr>"
  by (simp add: ledger0_def GreenChain_init_def load_blockchain_def create_genesis_block_def
      save_blockchain_def Block_init_def block0_def digest0 Let_def)

lemma mine_example1:
  "mine_block (now_time clock1) (certificate_data uuid1 clock1 solar_data) ledger0 = Some block1"
  apply (simp add: mine_block_def Let_def ledger0_eq get_latest_block_def block0_def)
  apply (subst mine_loop.simps)
  apply (simp add: Block_init_def digest1 pow_hashes block1_def)
  done

lemma mine_example2:
  "mine_block (now_time clock2) (certificate_data uuid2 clock2 []) ledger0 = Some block2"
  apply (simp add: mine_block_def Let_def ledger0_eq get_latest_block_def block0_def)
  apply (subst mine_loop.simps)
  apply (simp add: Block_init_def digest2 pow_hashes block2_def)
  done

lemma reachable_ledger0: "reachable ledger0"
  unfolding reachable_def ledger0_def by (blast intro: evolves.same)

lemma wf_ledger0: "wf_chain (difficulty ledger0) (chain ledger0)"
  using reachable_inv [OF reachable_ledger0] by (simp add: ledger_inv_def)

lemma issue_example1:
  "issue_certificate uuid1 clock1 solar_data ledger0 = Some (Inr hash1, ledger1)"
  apply (simp add: issue_certificate_def mine_example1 add_block_mined [OF wf_ledger0 mine_example1])
  apply (simp add: ledger0_eq save_blockchain_def block1_def ledger1_def cert1_def)
  done

lemma issue_example2:
  "issue_certificate uuid2 clock2 [] ledger0 = Some (Inr hash2, ledger2)"
  apply (simp add: issue_certificate_def mine_example2 add_block_mined [OF wf_ledger0 mine_example2])
  apply (simp add: ledger0_eq save_blockchain_def block2_def ledger2_def cert2_def)
  done

lemma reachable_ledger1: "reachable ledger1"
  using reachable_evolves [OF reachable_ledger0 evolves.issue [OF evolves.same issue_example1]] .

lemma wf_ledger1: "wf_chain (difficulty ledger1) (chain ledger1)"
  using reachable_inv [OF reachable_ledger1] by (simp add: ledger_inv_def)

lemma find_hash1: "find_by_hash hash1 (certificates ledger1) = Some (uuid1, cert1)"
  by (simp add: find_by_hash_def ledger1_def cert1_def)

lemma mine_example3:
  "mine_block (now_time clock3) (retirement_data uuid1 hash1 clock3) ledger1_marked = Some block3"
  apply (simp add: mine_block_def Let_def ledger1_marked_def ledger1_def get_latest_block_def block1_def)
  apply (subst mine_loop.simps)
  apply (simp add: Block_init_def digest3 pow_hashes block3_def)
  done

lemma retire_example:
  "retire_certificate hash1 clock3 ledger1 = Some (Inr True, ledger3)"
proof -
  have wf: "wf_chain (difficulty ledger1_marked) (chain ledger1_marked)"
    using wf_ledger1 by (simp add: ledger1_marked_def)
  have "uuid1 \<notin> retired_certificates ledger1" by (simp add: ledger1_def)
  then have "retire_certificate hash1 clock3 ledger1 = Some (add_block ledger1_marked block3)"
    by (simp add: retire_certificate_def find_hash1 Let_def
        mine_example3 [unfolded ledger1_marked_def] ledger1_marked_def)
  also have "add_block ledger1_marked block3 = (Inr True, ledger3)"
    unfolding add_block_mined [OF wf mine_example3]
    by (simp add: ledger1_marked_def ledger1_def save_blockchain_def ledger3_def)
  finally show ?thesis .
qed

text \<open>
  C9. On a ledger reached from a fresh one by issue and retire calls, the block that
  \<^verbatim>\<open>mine_block\<close> returns for any payload passes \<^verbatim>\<open>is_valid_block\<close>, so
  \<^verbatim>\<open>add_block\<close> returns true; \<^verbatim>\<open>issue_certificate\<close> never raises its
  "failed to add" exception, and \<^verbatim>\<open>retire_certificate\<close> never returns false for a
  certificate that it found and that was not retired.
\<close>

theorem mined_block_is_valid:
  assumes "reachable s" and "mine_block t payload s = Some b"
  shows "is_valid_block s b = Inr True \<and>
         fst (add_block s b) = Inr True \<and>
         (\<forall>u clk d r s'. issue_certificate u clk d s = Some (r, s') \<longrightarrow>
            r \<noteq> Inl (Exception ''Failed to add certificate block to blockchain'')) \<and>
         (\<forall>h clk u ci r s'. retire_certificate h clk s = Some (r, s') \<longrightarrow>
            find_by_hash h (certificates s) = Some (u, ci) \<longrightarrow>
            u \<notin> retired_certificates s \<longrightarrow> r = Inr True)"
proof -
  from assms(1) have wf: "wf_chain (difficulty s) (chain s)"
    using reachable_inv by (simp add: ledger_inv_def)
  have "is_valid_block s b = Inr True" using wf assms(2) by (rule mined_block_valid)
  moreover have "fst (add_block s b) = Inr True"
    using add_block_mined [OF wf assms(2)] by simp
  moreover have "r \<noteq> Inl (Exception ''Failed to add certificate block to blockchain'')"
    if "issue_certificate u clk d s = Some (r, s')" for u clk d r s'
    using issue_certificate_cases [OF wf that] by auto
  moreover have "r = Inr True"
    if "retire_certificate h clk s = Some (r, s')"
      "find_by_hash h (certificates s) = Some (u, ci)" "u \<notin> retired_certificates s"
    for h clk u ci r s'
    using retire_certificate_cases [OF wf that(1)] that(2,3) by auto
  ultimately show ?thesis by blast
qed

theorem mined_block_is_valid_witness:
  "reachable ledger0 \<and>
   mine_block (now_time clock1) (certificate_data uuid1 clock1 solar_data) ledger0 = Some block1 \<and>
   is_valid_block ledger0 block1 = Inr True \<and> fst (add_block ledger0 block1) = Inr True"
  using mined_block_is_valid [OF reachable_ledger0 mine_example1] reachable_ledger0 mine_example1
  by simp

text \<open>
  C4, as stated, fails: the Genesis block is built by the constructor alone and never
  mined. With difficulty 4 and the clock \<open>clock0\<close>, its hash does not begin with four
  zeros.
\<close>

theorem fresh_ledger_genesis_not_mined:
  "chain (GreenChain_init 4 None clock0) = [block0] \<and> \<not> pow_ok 4 (hash block0)"
  using ledger0_eq pow_hashes(1) by (simp add: ledger0_def block0_def)

text \<open>
  C4, amended. A ledger initialised without a stored document holds exactly one block,
  the Genesis block: index 0, previous hash \<open>''0''\<close>, nonce 0, payload tagged
  \<open>genesis\<close>, its hash the digest of its own fields. It carries no proof of work;
  \<^verbatim>\<open>is_valid_block\<close> accepts it by its index, and the chain is valid.
\<close>

theorem fresh_ledger_genesis:
  "chain (GreenChain_init d None clk) = [Block_init 0 (now_time clk) (genesis_data clk) ''0'' 0] \<and>
   index (hd (chain (GreenChain_init d None clk))) = 0 \<and>
   previous_hash (hd (chain (GreenChain_init d None clk))) = ''0'' \<and>
   nonce (hd (chain (GreenChain_init d None clk))) = 0 \<and>
   dict_get (data (hd (chain (GreenChain_init d None clk)))) ''type'' = JStr ''genesis'' \<and>
   hash (hd (chain (GreenChain_init d None clk))) =
     calculate_hash (hd (chain (GreenChain_init d None clk))) \<and>
   is_valid_block (GreenChain_init d None clk) (hd (chain (GreenChain_init d None clk))) = Inr True \<and>
   is_chain_valid (GreenChain_init d None clk) = Inr True"
  by (simp add: GreenChain_init_def load_blockchain_def create_genesis_block_def
      save_blockchain_def Let_def is_valid_block_def is_chain_valid_def genesis_data_def
      dict_get_def)

end
